theory Spec2Isabelle
  imports Main
begin

section \<open>JavaScript values\<close>

text \<open>
  The values the library handles: attribute values, parsed JSON responses, request
  payloads. \<open>Num\<close> carries the integer-valued finite numbers; fractional and
  non-finite numbers are outside the model. \<open>Obj\<close> keeps the own enumerable
  properties in insertion order.
\<close>

datatype jsval =
    Undefined
  | Null
  | Bool bool
  | Num int
  | Str string
  | Arr "jsval list"
  | Obj "(string \<times> jsval) list"

text \<open>ToBoolean, as used by \<open>!x\<close> and \<open>x || y\<close>.\<close>

fun truthy :: "jsval \<Rightarrow> bool" where
  "truthy Undefined = False"
| "truthy Null = False"
| "truthy (Bool b) = b"
| "truthy (Num n) = (n \<noteq> 0)"
| "truthy (Str s) = (s \<noteq> [])"
| "truthy (Arr xs) = True"
| "truthy (Obj kvs) = True"

text \<open>
  Reading a property that is not an array index or \<open>length\<close> (\<open>_id\<close>, \<open>views\<close>,
  \<open>message\<close>) of a value that is neither \<open>undefined\<close> nor \<open>null\<close>: an object
  gives the stored value, everything else \<open>undefined\<close>. The methods that read a property
  of a stored response test the response for truthiness first.
\<close>

fun js_get :: "jsval \<Rightarrow> string \<Rightarrow> jsval" where
  "js_get (Obj kvs) k = (case map_of kvs k of Some v \<Rightarrow> v | None \<Rightarrow> Undefined)"
| "js_get v k = Undefined"

text \<open>\<open>Y.Lang.isString\<close>, \<open>Y.Lang.isBoolean\<close>, \<open>Y.Lang.isNumber\<close> (a \<open>typeof\<close> test; the
  numbers of the model are all finite).\<close>

fun IS_STRING :: "jsval \<Rightarrow> bool" where
  "IS_STRING (Str s) = True"
| "IS_STRING v = False"

fun IS_BOOLEAN :: "jsval \<Rightarrow> bool" where
  "IS_BOOLEAN (Bool b) = True"
| "IS_BOOLEAN v = False"

fun IS_NUMBER :: "jsval \<Rightarrow> bool" where
  "IS_NUMBER (Num n) = True"
| "IS_NUMBER v = False"

subsection \<open>Conversion to string\<close>

definition digit_char :: "nat \<Rightarrow> char" where
  "digit_char d = ''0123456789ABCDEF'' ! d"

function nat_to_string :: "nat \<Rightarrow> string" where
  "nat_to_string n =
     (if n < 10 then [digit_char n] else nat_to_string (n div 10) @ [digit_char (n mod 10)])"
  by pat_completeness auto
termination
  by (relation "measure id") auto

declare nat_to_string.simps [simp del]

definition int_to_string :: "int \<Rightarrow> string" where
  "int_to_string i = (if i < 0 then CHR ''-'' # nat_to_string (nat (- i)) else nat_to_string (nat i))"

fun join :: "string \<Rightarrow> string list \<Rightarrow> string" where
  "join sep [] = []"
| "join sep [x] = x"
| "join sep (x # y # ys) = x @ sep @ join sep (y # ys)"

text \<open>ToString, as applied by \<open>+\<close> with a string operand and by \<open>encodeURIComponent\<close>.\<close>

fun js_to_string :: "jsval \<Rightarrow> string" where
  "js_to_string Undefined = ''undefined''"
| "js_to_string Null = ''null''"
| "js_to_string (Bool b) = (if b then ''true'' else ''false'')"
| "js_to_string (Num n) = int_to_string n"
| "js_to_string (Str s) = s"
| "js_to_string (Arr xs) =
     join '','' (map (\<lambda>x. if x = Undefined \<or> x = Null then [] else js_to_string x) xs)"
| "js_to_string (Obj kvs) = ''[object Object]''"

subsection \<open>encodeURIComponent\<close>

text \<open>
  A \<open>char\<close> stands for the code point of the same number (U+0000 to U+00FF). The
  unreserved characters are kept; every other code point is replaced by the
  percent-escapes of its UTF-8 bytes: one byte below U+0080, two bytes from there on.
\<close>

definition uriUnreserved :: "char \<Rightarrow> bool" where
  "uriUnreserved c \<longleftrightarrow>
     c \<in> set ''ABCDEFGHIJKLMNOPQRSTUVWXYZabcdefghijklmnopqrstuvwxyz0123456789-_.!~*()''
     \<or> c = CHR 0x27"

definition percent :: "nat \<Rightarrow> string" where
  "percent b = [CHR ''%'', digit_char (b div 16), digit_char (b mod 16)]"

definition encode_char :: "char \<Rightarrow> string" where
  "encode_char c =
     (if uriUnreserved c then [c]
      else if of_char c < (128::nat) then percent (of_char c)
      else percent (192 + of_char c div 64) @ percent (128 + of_char c mod 64))"

definition encodeURIComponent :: "string \<Rightarrow> string" where
  "encodeURIComponent s = concat (map encode_char s)"


section \<open>Query strings\<close>







section \<open>Entities, attributes and events\<close>

text \<open>
  Every entity (Connect, DB, Document, View) is a \<open>Y.Base\<close> object: a store of
  attribute values, the protected property \<open>_uri\<close>, and what it does to the outside.
  The outside is recorded as three traces: the events fired (the type string handed to
  \<open>fire\<close>, with the payload), the requests handed to a transport by \<open>sendRequest\<close>, and
  the messages logged at level \<open>error\<close> (the \<open>info\<close>-level trace messages are not
  recorded). An attribute without a value reads \<open>undefined\<close>.
\<close>

record request =
  req_source :: string
  req_method :: string
  req_headers :: "(string \<times> string) list"
  req_data :: jsval

record entity =
  attrs :: "string \<Rightarrow> jsval"
  uri :: string
  fired :: "(string \<times> jsval) list"
  requests :: "request list"
  errlog :: "string list"

text \<open>
  One entry of a class's \<open>ATTRS\<close>: the default \<open>value\<close> (\<open>Undefined\<close> when there is
  none), \<open>readOnly\<close>, the \<open>validator\<close> and the \<open>setter\<close>. A key the attribute system does
  not know is ignored by it, so it has no field here.
\<close>

record attr_cfg =
  cfg_value :: jsval
  cfg_readOnly :: bool
  cfg_validator :: "(jsval \<Rightarrow> bool) option"
  cfg_setter :: "(jsval \<Rightarrow> entity \<Rightarrow> jsval \<times> entity) option"

definition plain :: attr_cfg where
  "plain = \<lparr>cfg_value = Undefined, cfg_readOnly = False, cfg_validator = None, cfg_setter = None\<rparr>"

text \<open>
  \<open>set\<close> (\<open>force = False\<close>) and \<open>_set\<close> (\<open>force = True\<close>) of the attribute system. A
  \<open>readOnly\<close> attribute refuses \<open>set\<close> once it holds a value; the validator is asked next,
  and a refused value leaves the attribute as it was; the setter, when there is one, runs
  last and its result is what is stored. Only the attributes a class declares are
  modelled: a name outside \<open>ATTRS\<close> leaves the entity as it is.
\<close>

definition attr_set ::
  "(string \<times> attr_cfg) list \<Rightarrow> bool \<Rightarrow> string \<Rightarrow> jsval \<Rightarrow> entity \<Rightarrow> entity" where
  "attr_set ATTRS force name val st =
     (case map_of ATTRS name of
        None \<Rightarrow> st
      | Some cfg \<Rightarrow>
          if \<not> force \<and> cfg_readOnly cfg \<and> attrs st name \<noteq> Undefined then st
          else if (case cfg_validator cfg of None \<Rightarrow> False | Some valid \<Rightarrow> \<not> valid val) then st
          else (case cfg_setter cfg of
                  None \<Rightarrow> st\<lparr>attrs := (attrs st)(name := val)\<rparr>
                | Some setter \<Rightarrow>
                    (case setter val st of
                       (v, st') \<Rightarrow> st'\<lparr>attrs := (attrs st')(name := v)\<rparr>)))"


text \<open>
  Construction. Each declared attribute starts from the value of the configuration
  object, unless the attribute is \<open>readOnly\<close> or the configuration has none, and from its
  default otherwise; a start value the validator refuses is replaced by the default; an
  attribute with no start value is not set (so its setter does not run). The attributes
  are set in declaration order. (The library adds them lazily, on first access; by the time
  an initializer or a method has called \<open>getAttrs\<close> all of them are set, and the setters
  of this library recompute \<open>_uri\<close> from all their fields each time.)
\<close>

definition attr_init ::
  "(string \<times> attr_cfg) list \<Rightarrow> jsval \<Rightarrow> string \<times> attr_cfg \<Rightarrow> entity \<Rightarrow> entity" where
  "attr_init ATTRS config a st =
     (case a of (name, cfg) \<Rightarrow>
        let given = (if cfg_readOnly cfg then Undefined else js_get config name);
            v = (if given = Undefined then cfg_value cfg else given);
            v' = (case cfg_validator cfg of
                    None \<Rightarrow> v
                  | Some valid \<Rightarrow> if valid v then v else cfg_value cfg)
        in if v = Undefined then st else attr_set ATTRS False name v' st)"

definition construct :: "(string \<times> attr_cfg) list \<Rightarrow> jsval \<Rightarrow> entity" where
  "construct ATTRS config =
     fold (attr_init ATTRS config) ATTRS
       \<lparr>attrs = (\<lambda>name. Undefined), uri = [], fired = [], requests = [], errlog = []\<rparr>"

text \<open>
  \<open>fire\<close>: the event is recorded, then the default function published for its type
  runs, when one was published (no subscriber is modelled).
\<close>

definition fire ::
  "(string \<times> (jsval \<Rightarrow> entity \<Rightarrow> entity)) list \<Rightarrow> string \<Rightarrow> jsval \<Rightarrow> entity \<Rightarrow> entity" where
  "fire published type e st =
     (let st' = st\<lparr>fired := fired st @ [(type, e)]\<rparr>
      in case map_of published type of None \<Rightarrow> st' | Some defaultFn \<Rightarrow> defaultFn e st')"

definition sendRequest :: "request \<Rightarrow> entity \<Rightarrow> entity" where
  "sendRequest r st = st\<lparr>requests := requests st @ [r]\<rparr>"

definition json_headers :: "(string \<times> string) list" where
  "json_headers = [(''Content-Type'', ''application/json'')]"

subsection \<open>Y.Couch.Base\<close>

definition EVENT_ERROR :: string where "EVENT_ERROR = ''couch:error''"
definition EVENT_INFO :: string where "EVENT_INFO = ''couch:info''"
definition EVENT_FETCH_ALL :: string where "EVENT_FETCH_ALL = ''couch:fetchAll''"
definition EVENT_OPENED :: string where "EVENT_OPENED = ''couch:opened''"
definition EVENT_SAVED :: string where "EVENT_SAVED = ''couch:saved''"
definition EVENT_DELETED :: string where "EVENT_DELETED = ''couch:deleted''"
definition EVENT_DATA :: string where "EVENT_DATA = ''couch:data''"

text \<open>
  The attributes every entity inherits: \<open>initialized\<close> and \<open>destroyed\<close> of \<open>Y.Base\<close>, and
  \<open>dataSource\<close>, whose value function makes the default transport (an object, opaque
  here).
\<close>

definition Base_ATTRS :: "(string \<times> attr_cfg) list" where
  "Base_ATTRS =
     [(''initialized'', plain\<lparr>cfg_value := Bool False, cfg_readOnly := True\<rparr>),
      (''destroyed'', plain\<lparr>cfg_value := Bool False, cfg_readOnly := True\<rparr>),
      (''dataSource'', plain\<lparr>cfg_value := Obj []\<rparr>)]"

definition defErrorFn :: "jsval \<Rightarrow> entity \<Rightarrow> entity" where
  "defErrorFn e st = st\<lparr>errlog := errlog st @ [js_to_string (js_get e ''message'')]\<rparr>"


subsection \<open>Y.Couch.DB\<close>

definition DB_baseURISetter :: "jsval \<Rightarrow> entity \<Rightarrow> jsval \<times> entity" where
  "DB_baseURISetter val st =
     (val, st\<lparr>uri := js_to_string val @ ''/'' @ js_to_string (attrs st ''name'') @ ''/''\<rparr>)"

definition DB_nameSetter :: "jsval \<Rightarrow> entity \<Rightarrow> jsval \<times> entity" where
  "DB_nameSetter val st =
     (val, st\<lparr>uri := js_to_string (attrs st ''baseURI'') @ ''/'' @ js_to_string val @ ''/''\<rparr>)"

definition DB_ATTRS :: "(string \<times> attr_cfg) list" where
  "DB_ATTRS = Base_ATTRS @
     [(''baseURI'', plain\<lparr>cfg_value := Str [], cfg_setter := Some DB_baseURISetter\<rparr>),
      (''name'', plain\<lparr>cfg_value := Str [], cfg_setter := Some DB_nameSetter\<rparr>),
      (''info'', plain\<lparr>cfg_readOnly := True\<rparr>),
      (''documents'', plain\<lparr>cfg_readOnly := True\<rparr>)]"

definition DB_set :: "string \<Rightarrow> jsval \<Rightarrow> entity \<Rightarrow> entity" where
  "DB_set name val st = attr_set DB_ATTRS False name val st"

definition DB_set_protected :: "string \<Rightarrow> jsval \<Rightarrow> entity \<Rightarrow> entity" where
  "DB_set_protected name val st = attr_set DB_ATTRS True name val st"

definition DB_defInfoFn :: "jsval \<Rightarrow> entity \<Rightarrow> entity" where
  "DB_defInfoFn e st = DB_set_protected ''info'' (js_get e ''response'') st"

definition DB_defFecthAllFn :: "jsval \<Rightarrow> entity \<Rightarrow> entity" where
  "DB_defFecthAllFn e st = DB_set_protected ''documents'' (js_get e ''response'') st"

definition DB_fire :: "string \<Rightarrow> jsval \<Rightarrow> entity \<Rightarrow> entity" where
  "DB_fire type e st =
     fire [(EVENT_ERROR, defErrorFn), (EVENT_INFO, DB_defInfoFn),
           (EVENT_FETCH_ALL, DB_defFecthAllFn)] type e st"

text \<open>
  A fetch hands one request to a fresh transport. Its two callbacks are functions of
  their own: \<open>_success\<close> takes the parsed JSON body of the response, \<open>_failure\<close> the
  message of the transport's error.
\<close>

definition DB_fetchInfo :: "entity \<Rightarrow> entity" where
  "DB_fetchInfo st =
     sendRequest \<lparr>req_source = uri st, req_method = ''GET'', req_headers = json_headers,
                  req_data = Undefined\<rparr> st"

definition DB_fetchInfo_success :: "jsval \<Rightarrow> entity \<Rightarrow> entity" where
  "DB_fetchInfo_success response st = DB_fire EVENT_INFO (Obj [(''response'', response)]) st"

definition DB_fetchInfo_failure :: "string \<Rightarrow> entity \<Rightarrow> entity" where
  "DB_fetchInfo_failure message st =
     DB_fire EVENT_ERROR (Obj [(''message'',
       Str (''An error occurred fetching the information for the databases: '' @ message))]) st"

text \<open>\<open>new Y.Couch.DB(config)\<close>: the attributes, then the initializer, which calls
  \<open>fetchInfo\<close>, then \<open>initialized\<close>.\<close>

definition DB_new :: "jsval \<Rightarrow> entity" where
  "DB_new config =
     attr_set DB_ATTRS True ''initialized'' (Bool True) (DB_fetchInfo (construct DB_ATTRS config))"

subsection \<open>Y.Couch.Connect\<close>

text \<open>
  \<open>getDatabase\<close> builds the DB and returns it; the Connect is only read. The DB is a new
  entity with traces of its own.
\<close>

definition Connect_getDatabase :: "jsval \<Rightarrow> entity \<Rightarrow> entity" where
  "Connect_getDatabase name st =
     DB_new (Obj [(''baseURI'', attrs st ''baseURI''), (''name'', name)])"

text \<open>
  Storing a property in a value: an object is updated in place or extended; a
  primitive ignores the store. (A named property stored in an array is not
  representable; the array is left as it is.)
\<close>

fun js_put :: "jsval \<Rightarrow> string \<Rightarrow> jsval \<Rightarrow> jsval" where
  "js_put (Obj kvs) k v =
     Obj (if k \<in> fst ` set kvs then map (\<lambda>(k', v'). if k' = k then (k', v) else (k', v')) kvs
          else kvs @ [(k, v)])"
| "js_put obj k v = obj"

text \<open>\<open>replicate\<close> has no \<open>return\<close> and no callbacks: the result is the Connect alone.\<close>

definition Connect_replicate :: "jsval \<Rightarrow> jsval \<Rightarrow> jsval \<Rightarrow> entity \<Rightarrow> entity" where
  "Connect_replicate source target requestConfig st =
     (let st1 = (if \<not> IS_STRING source \<and> \<not> IS_STRING target
                 then st\<lparr>errlog := errlog st @
                        [''Cannot replicate '' @ js_to_string source @ '' to ''
                         @ js_to_string target @ ''.'']\<rparr>
                 else st);
          requestConfig1 = (if truthy requestConfig then requestConfig else Obj []);
          requestConfig2 = js_put (js_put requestConfig1 ''source'' source) ''target'' target
      in sendRequest \<lparr>req_source = js_to_string (attrs st1 ''baseURI'') @ ''/_replicate'',
                      req_method = ''POST'', req_headers = json_headers,
                      req_data = requestConfig2\<rparr> st1)"

subsection \<open>Y.Couch.Document\<close>

definition Document_baseURISetter :: "jsval \<Rightarrow> entity \<Rightarrow> jsval \<times> entity" where
  "Document_baseURISetter val st =
     (val, st\<lparr>uri := js_to_string val @ ''/'' @ js_to_string (attrs st ''databaseName'')
                     @ ''/'' @ js_to_string (attrs st ''id'')\<rparr>)"

definition Document_databaseNameSetter :: "jsval \<Rightarrow> entity \<Rightarrow> jsval \<times> entity" where
  "Document_databaseNameSetter val st =
     (val, st\<lparr>uri := js_to_string (attrs st ''baseURI'') @ ''/'' @ js_to_string val
                     @ ''/'' @ js_to_string (attrs st ''id'')\<rparr>)"

definition Document_idSetter :: "jsval \<Rightarrow> entity \<Rightarrow> jsval \<times> entity" where
  "Document_idSetter val st =
     (let val' = encodeURIComponent (js_to_string val)
      in (Str val', st\<lparr>uri := js_to_string (attrs st ''baseURI'') @ ''/''
                               @ js_to_string (attrs st ''databaseName'') @ ''/'' @ val'\<rparr>))"

definition Document_ATTRS :: "(string \<times> attr_cfg) list" where
  "Document_ATTRS = Base_ATTRS @
     [(''baseURI'', plain\<lparr>cfg_value := Str [], cfg_setter := Some Document_baseURISetter\<rparr>),
      (''databaseName'', plain\<lparr>cfg_value := Str [], cfg_setter := Some Document_databaseNameSetter\<rparr>),
      (''id'', plain\<lparr>cfg_value := Str [], cfg_setter := Some Document_idSetter\<rparr>),
      (''info'', plain\<lparr>cfg_readOnly := True\<rparr>),
      (''data'', plain\<lparr>cfg_readOnly := True\<rparr>)]"

definition Document_set :: "string \<Rightarrow> jsval \<Rightarrow> entity \<Rightarrow> entity" where
  "Document_set name val st = attr_set Document_ATTRS False name val st"

definition Document_set_protected :: "string \<Rightarrow> jsval \<Rightarrow> entity \<Rightarrow> entity" where
  "Document_set_protected name val st = attr_set Document_ATTRS True name val st"

text \<open>The default functions: \<open>_defInfoFn\<close> calls \<open>set\<close>, \<open>_defOpenedFn\<close> calls \<open>_set\<close>.\<close>

definition Document_defInfoFn :: "jsval \<Rightarrow> entity \<Rightarrow> entity" where
  "Document_defInfoFn e st = Document_set ''info'' (js_get e ''response'') st"

definition Document_defOpenedFn :: "jsval \<Rightarrow> entity \<Rightarrow> entity" where
  "Document_defOpenedFn e st = Document_set_protected ''data'' (js_get e ''response'') st"

definition Document_defSavedFn :: "jsval \<Rightarrow> entity \<Rightarrow> entity" where
  "Document_defSavedFn e st = st"

definition Document_defRemovedFn :: "jsval \<Rightarrow> entity \<Rightarrow> entity" where
  "Document_defRemovedFn e st = st"

definition Document_fire :: "string \<Rightarrow> jsval \<Rightarrow> entity \<Rightarrow> entity" where
  "Document_fire type e st =
     fire [(EVENT_ERROR, defErrorFn), (EVENT_INFO, Document_defInfoFn),
           (EVENT_OPENED, Document_defOpenedFn), (EVENT_SAVED, Document_defSavedFn),
           (EVENT_DELETED, Document_defRemovedFn)] type e st"

definition Document_fetchInfo :: "entity \<Rightarrow> entity" where
  "Document_fetchInfo st =
     sendRequest \<lparr>req_source = uri st, req_method = ''GET'', req_headers = json_headers,
                  req_data = Undefined\<rparr> st"

definition Document_fetchInfo_success :: "jsval \<Rightarrow> entity \<Rightarrow> entity" where
  "Document_fetchInfo_success response st =
     Document_fire EVENT_INFO (Obj [(''response'', response)]) st"

definition Document_fetchInfo_failure :: "string \<Rightarrow> entity \<Rightarrow> entity" where
  "Document_fetchInfo_failure message st =
     Document_fire EVENT_ERROR (Obj [(''message'',
       Str (''An error occurred fetching the information for the databases: '' @ message))]) st"

definition Document_new :: "jsval \<Rightarrow> entity" where
  "Document_new config =
     attr_set Document_ATTRS True ''initialized'' (Bool True)
       (Document_fetchInfo (construct Document_ATTRS config))"

definition Document_open :: "jsval \<Rightarrow> entity \<Rightarrow> entity" where
  "Document_open options st =
     sendRequest \<lparr>req_source = uri st, req_method = ''GET'', req_headers = json_headers,
                  req_data = options\<rparr> st"

definition Document_open_success :: "jsval \<Rightarrow> entity \<Rightarrow> entity" where
  "Document_open_success response st =
     Document_fire EVENT_OPENED (Obj [(''response'', response)]) st"

definition Document_open_failure :: "string \<Rightarrow> entity \<Rightarrow> entity" where
  "Document_open_failure message st =
     Document_fire EVENT_ERROR (Obj [(''message'',
       Str (''An error occurred opening the document: '' @ message))]) st"

text \<open>
  What a method gives back: \<open>null\<close>, or the transport it sent the request with (named by
  its \<open>source\<close>). A method that raises gives \<open>Inl\<close> of the error.
\<close>

datatype returned = ReturnedNull | ReturnedDataSource string

datatype jserror = TypeError

text \<open>
  \<open>save\<close>. With options given it calls \<open>this._queryString\<close>, a method that neither the
  class, nor \<open>Y.Couch.Base\<close>, nor \<open>Y.Base\<close> has: the call raises a \<open>TypeError\<close>
  before anything is sent.
\<close>

definition Document_save :: "jsval \<Rightarrow> entity \<Rightarrow> (jserror + returned) \<times> entity" where
  "Document_save options st =
     (let documentData = attrs st ''data'';
          url = uri st
      in if \<not> truthy documentData \<or> \<not> truthy (js_get documentData ''_id'')
         then (Inr ReturnedNull,
               Document_fire EVENT_ERROR
                 (Obj [(''message'', Str ''No data found on the document to save.'')]) st)
         else let url1 = url @ encodeURIComponent (js_to_string (js_get documentData ''_id''))
              in if options \<noteq> Undefined then (Inl TypeError, st)
                 else (Inr (ReturnedDataSource url1),
                       sendRequest \<lparr>req_source = url1, req_method = ''PUT'',
                                    req_headers = json_headers, req_data = documentData\<rparr> st))"



text \<open>
  \<open>Y.Object.keys\<close>: the keys of an object, the indices of an array, a \<open>TypeError\<close> for
  anything else.
\<close>

fun Object_keys :: "jsval \<Rightarrow> jserror + string list" where
  "Object_keys (Obj kvs) = Inr (map fst kvs)"
| "Object_keys (Arr xs) = Inr (map nat_to_string [0..<length xs])"
| "Object_keys v = Inl TypeError"

text \<open>\<open>getAllViews\<close> fires the event whose type is the string \<open>'EVENT_ERROR'\<close>.\<close>

definition Document_getAllViews :: "entity \<Rightarrow> (jserror + string list) \<times> entity" where
  "Document_getAllViews st =
     (let info = attrs st ''info''
      in if \<not> truthy info \<or> \<not> truthy (js_get info ''views'')
         then (Inr [],
               Document_fire ''EVENT_ERROR''
                 (Obj [(''message'', Str ''There is no information for this document available.'')]) st)
         else (Object_keys (js_get info ''views''), st))"

subsection \<open>Y.Couch.View\<close>

definition View_baseURISetter :: "jsval \<Rightarrow> entity \<Rightarrow> jsval \<times> entity" where
  "View_baseURISetter val st =
     (val, st\<lparr>uri := js_to_string val @ ''/_view/'' @ js_to_string (attrs st ''name'')\<rparr>)"

definition View_nameSetter :: "jsval \<Rightarrow> entity \<Rightarrow> jsval \<times> entity" where
  "View_nameSetter val st =
     (val, st\<lparr>uri := js_to_string (attrs st ''baseURI'') @ ''/_view/'' @ js_to_string val\<rparr>)"

definition stale_validator :: "jsval \<Rightarrow> bool" where
  "stale_validator val \<longleftrightarrow> val = Str ''ok'' \<or> val = Str ''update_after''"

text \<open>
  The attributes of a View, in declaration order. \<open>limit\<close> is declared as
  \<open>{ validotor : IS_NUMBER }\<close>: the attribute system reads the key \<open>validator\<close>, so
  \<open>limit\<close> has none.
\<close>

definition View_ATTRS :: "(string \<times> attr_cfg) list" where
  "View_ATTRS = Base_ATTRS @
     [(''baseURI'', plain\<lparr>cfg_setter := Some View_baseURISetter\<rparr>),
      (''name'', plain\<lparr>cfg_value := Str [], cfg_setter := Some View_nameSetter\<rparr>),
      (''data'', plain),
      (''descending'', plain\<lparr>cfg_value := Bool False, cfg_validator := Some IS_BOOLEAN\<rparr>),
      (''endkey'', plain),
      (''endkey_docid'', plain),
      (''group'', plain\<lparr>cfg_value := Bool False, cfg_validator := Some IS_BOOLEAN\<rparr>),
      (''group_level'', plain),
      (''include_docs'', plain\<lparr>cfg_value := Bool False, cfg_validator := Some IS_BOOLEAN\<rparr>),
      (''inclusive_end'', plain\<lparr>cfg_value := Bool True, cfg_validator := Some IS_BOOLEAN\<rparr>),
      (''key'', plain),
      (''limit'', plain),
      (''reduce'', plain\<lparr>cfg_validator := Some IS_BOOLEAN\<rparr>),
      (''skip'', plain\<lparr>cfg_value := Num 0, cfg_validator := Some IS_NUMBER\<rparr>),
      (''stale'', plain\<lparr>cfg_validator := Some stale_validator\<rparr>),
      (''startkey'', plain),
      (''startkey_docid'', plain)]"

definition View_set :: "string \<Rightarrow> jsval \<Rightarrow> entity \<Rightarrow> entity" where
  "View_set name val st = attr_set View_ATTRS False name val st"

definition View_new :: "jsval \<Rightarrow> entity" where
  "View_new config = attr_set View_ATTRS True ''initialized'' (Bool True) (construct View_ATTRS config)"






subsection \<open>Example entities\<close>

text \<open>A Document made by \<open>new Y.Couch.Document({baseURI: 'http://x', databaseName: 'd', id: '1'})\<close>.\<close>

definition document_1 :: entity where
  "document_1 =
     Document_new (Obj [(''baseURI'', Str ''http://x''), (''databaseName'', Str ''d''), (''id'', Str ''1'')])"

text \<open>\<open>document_1\<close> after \<open>open()\<close> was answered with \<open>{"_id": "1", "_rev": "1-a"}\<close>.\<close>

definition document_2 :: entity where
  "document_2 =
     Document_open_success (Obj [(''_id'', Str ''1''), (''_rev'', Str ''1-a'')])
       (Document_open Undefined document_1)"

text \<open>A View made by \<open>new Y.Couch.View({descending: true, limit: 5, stale: 'ok'})\<close>.\<close>

definition view_1 :: entity where
  "view_1 = View_new (Obj [(''descending'', Bool True), (''limit'', Num 5), (''stale'', Str ''ok'')])"

text \<open>A Connect whose \<open>baseURI\<close> reads \<open>'http://x'\<close>; nothing else of it is read below.\<close>

definition connect_1 :: entity where
  "connect_1 =
     \<lparr>attrs = (\<lambda>name. Undefined)(''baseURI'' := Str ''http://x''), uri = [], fired = [],
      requests = [], errlog = []\<rparr>"

section \<open>Properties\<close>

subsection \<open>What the setters and default functions do\<close>

lemma DB_set_baseURI:
  "DB_set ''baseURI'' val st =
     st\<lparr>uri := js_to_string val @ ''/'' @ js_to_string (attrs st ''name'') @ ''/'',
        attrs := (attrs st)(''baseURI'' := val)\<rparr>"
  by (simp add: DB_set_def attr_set_def DB_ATTRS_def Base_ATTRS_def plain_def DB_baseURISetter_def)

lemma DB_set_name:
  "DB_set ''name'' val st =
     st\<lparr>uri := js_to_string (attrs st ''baseURI'') @ ''/'' @ js_to_string val @ ''/'',
        attrs := (attrs st)(''name'' := val)\<rparr>"
  by (simp add: DB_set_def attr_set_def DB_ATTRS_def Base_ATTRS_def plain_def DB_nameSetter_def)

lemma Document_set_info:
  "Document_set ''info'' val st =
     (if attrs st ''info'' \<noteq> Undefined then st else st\<lparr>attrs := (attrs st)(''info'' := val)\<rparr>)"
  by (simp add: Document_set_def attr_set_def Document_ATTRS_def Base_ATTRS_def plain_def)

lemma Document_set_protected_data:
  "Document_set_protected ''data'' val st = st\<lparr>attrs := (attrs st)(''data'' := val)\<rparr>"
  by (simp add: Document_set_protected_def attr_set_def Document_ATTRS_def Base_ATTRS_def plain_def)

lemma Document_fire_error:
  "Document_fire ''couch:error'' e st =
     st\<lparr>fired := fired st @ [(''couch:error'', e)],
        errlog := errlog st @ [js_to_string (js_get e ''message'')]\<rparr>"
  by (simp add: Document_fire_def fire_def EVENT_ERROR_def defErrorFn_def Let_def)

lemma Document_fetchInfo_success_eq:
  "Document_fetchInfo_success response st =
     Document_set ''info'' response
       (st\<lparr>fired := fired st @ [(''couch:info'', Obj [(''response'', response)])]\<rparr>)"
  by (simp add: Document_fetchInfo_success_def Document_fire_def fire_def EVENT_ERROR_def
      EVENT_INFO_def Document_defInfoFn_def Let_def)

lemma Document_open_success_eq:
  "Document_open_success response st =
     st\<lparr>fired := fired st @ [(''couch:opened'', Obj [(''response'', response)])],
        attrs := (attrs st)(''data'' := response)\<rparr>"
  by (simp add: Document_open_success_def Document_fire_def fire_def EVENT_ERROR_def EVENT_INFO_def
      EVENT_OPENED_def Document_defOpenedFn_def Document_set_protected_data Let_def)

lemma Document_new_of_three:
  "Document_new (Obj [(''baseURI'', Str b), (''databaseName'', Str d), (''id'', Str i)]) =
     \<lparr>attrs = (\<lambda>name. Undefined)(''initialized'' := Bool True, ''destroyed'' := Bool False,
          ''dataSource'' := Obj [], ''baseURI'' := Str b, ''databaseName'' := Str d,
          ''id'' := Str (encodeURIComponent i)),
       uri = b @ ''/'' @ d @ ''/'' @ encodeURIComponent i,
       fired = [],
       requests = [\<lparr>req_source = b @ ''/'' @ d @ ''/'' @ encodeURIComponent i,
                     req_method = ''GET'', req_headers = json_headers, req_data = Undefined\<rparr>],
       errlog = []\<rparr>"
proof -
  have "attrs (Document_new (Obj [(''baseURI'', Str b), (''databaseName'', Str d), (''id'', Str i)])) =
      (\<lambda>name. Undefined)(''initialized'' := Bool True, ''destroyed'' := Bool False,
          ''dataSource'' := Obj [], ''baseURI'' := Str b, ''databaseName'' := Str d,
          ''id'' := Str (encodeURIComponent i))"
    by (rule ext)
       (simp add: Document_new_def construct_def attr_init_def attr_set_def Document_ATTRS_def
          Base_ATTRS_def plain_def Document_baseURISetter_def Document_databaseNameSetter_def
          Document_idSetter_def Document_fetchInfo_def sendRequest_def Let_def)
  then show ?thesis
    by (simp add: Document_new_def construct_def attr_init_def attr_set_def Document_ATTRS_def
          Base_ATTRS_def plain_def Document_baseURISetter_def Document_databaseNameSetter_def
          Document_idSetter_def Document_fetchInfo_def sendRequest_def Let_def)
qed

lemma View_set_limit:
  "View_set ''limit'' val st = st\<lparr>attrs := (attrs st)(''limit'' := val)\<rparr>"
  by (simp add: View_set_def attr_set_def View_ATTRS_def Base_ATTRS_def plain_def)

lemma View_set_skip:
  "View_set ''skip'' val st =
     (if IS_NUMBER val then st\<lparr>attrs := (attrs st)(''skip'' := val)\<rparr> else st)"
  by (simp add: View_set_def attr_set_def View_ATTRS_def Base_ATTRS_def plain_def)

lemma DB_new_of_two:
  "DB_new (Obj [(''baseURI'', Str b), (''name'', Str n)]) =
     \<lparr>attrs = (\<lambda>name. Undefined)(''initialized'' := Bool True, ''destroyed'' := Bool False,
          ''dataSource'' := Obj [], ''baseURI'' := Str b, ''name'' := Str n),
       uri = b @ ''/'' @ n @ ''/'',
       fired = [],
       requests = [\<lparr>req_source = b @ ''/'' @ n @ ''/'', req_method = ''GET'',
                     req_headers = json_headers, req_data = Undefined\<rparr>],
       errlog = []\<rparr>"
proof -
  have "attrs (DB_new (Obj [(''baseURI'', Str b), (''name'', Str n)])) =
      (\<lambda>name. Undefined)(''initialized'' := Bool True, ''destroyed'' := Bool False,
          ''dataSource'' := Obj [], ''baseURI'' := Str b, ''name'' := Str n)"
    by (rule ext)
       (simp add: DB_new_def construct_def attr_init_def attr_set_def DB_ATTRS_def
          Base_ATTRS_def plain_def DB_baseURISetter_def DB_nameSetter_def
          DB_fetchInfo_def sendRequest_def Let_def)
  then show ?thesis
    by (simp add: DB_new_def construct_def attr_init_def attr_set_def DB_ATTRS_def
          Base_ATTRS_def plain_def DB_baseURISetter_def DB_nameSetter_def
          DB_fetchInfo_def sendRequest_def Let_def)
qed







lemma Document_set_id:
  "Document_set ''id'' val st =
     st\<lparr>uri := js_to_string (attrs st ''baseURI'') @ ''/'' @ js_to_string (attrs st ''databaseName'')
               @ ''/'' @ encodeURIComponent (js_to_string val),
        attrs := (attrs st)(''id'' := Str (encodeURIComponent (js_to_string val)))\<rparr>"
  by (simp add: Document_set_def attr_set_def Document_ATTRS_def Base_ATTRS_def plain_def
      Document_idSetter_def Let_def)

lemma encode_char_unreserved: "uriUnreserved c \<Longrightarrow> encode_char c = [c]"
  by (simp add: encode_char_def)

lemma encode_char_reserved:
  "\<not> uriUnreserved c \<Longrightarrow> CHR ''%'' \<in> set (encode_char c) \<and> 1 < length (encode_char c)"
  by (simp add: encode_char_def percent_def)

lemma length_encode_char: "1 \<le> length (encode_char c)"
  by (simp add: encode_char_def percent_def)

lemma length_encodeURIComponent: "length s \<le> length (encodeURIComponent s)"
proof (induction s)
  case Nil
  show ?case by (simp add: encodeURIComponent_def)
next
  case (Cons c s)
  have "length (encodeURIComponent (c # s)) = length (encode_char c) + length (encodeURIComponent s)"
    by (simp add: encodeURIComponent_def)
  with Cons length_encode_char [of c] show ?case by simp
qed

lemma encodeURIComponent_reserved:
  assumes "c \<in> set s" and "\<not> uriUnreserved c"
  shows "CHR ''%'' \<in> set (encodeURIComponent s) \<and> length s < length (encodeURIComponent s)"
  using assms
proof (induction s)
  case Nil
  then show ?case by simp
next
  case (Cons a s)
  have len: "length (encodeURIComponent (a # s)) = length (encode_char a) + length (encodeURIComponent s)"
    and mem: "set (encodeURIComponent (a # s)) = set (encode_char a) \<union> set (encodeURIComponent s)"
    by (simp_all add: encodeURIComponent_def)
  show ?case
  proof (cases "a = c")
    case True
    with Cons.prems encode_char_reserved [of a] length_encodeURIComponent [of s] len mem
    show ?thesis by auto
  next
    case False
    with Cons have "CHR ''%'' \<in> set (encodeURIComponent s) \<and> length s < length (encodeURIComponent s)"
      by simp
    with len mem length_encode_char [of a] show ?thesis by auto
  qed
qed

lemma encodeURIComponent_unreserved:
  "\<forall>c \<in> set s. uriUnreserved c \<Longrightarrow> encodeURIComponent s = s"
  by (induction s) (simp_all add: encodeURIComponent_def encode_char_unreserved)

lemma percent_is_reserved: "\<not> uriUnreserved CHR ''%''"
  by (simp add: uriUnreserved_def)

lemma encodeURIComponent_twice:
  assumes "encodeURIComponent s \<noteq> s"
  shows "encodeURIComponent (encodeURIComponent s) \<noteq> encodeURIComponent s"
proof -
  from assms obtain c where c: "c \<in> set s" "\<not> uriUnreserved c"
    using encodeURIComponent_unreserved by blast
  then have "CHR ''%'' \<in> set (encodeURIComponent s)"
    using encodeURIComponent_reserved by blast
  then have "length (encodeURIComponent s) < length (encodeURIComponent (encodeURIComponent s))"
    using encodeURIComponent_reserved percent_is_reserved by blast
  then show ?thesis by auto
qed

lemma Document_save_sends:
  assumes "truthy (js_get (attrs st ''data'') ''_id'')"
  shows "Document_save Undefined st =
           (Inr (ReturnedDataSource
                  (uri st @ encodeURIComponent (js_to_string (js_get (attrs st ''data'') ''_id'')))),
            st\<lparr>requests := requests st @
               [\<lparr>req_source = uri st @ encodeURIComponent (js_to_string (js_get (attrs st ''data'') ''_id'')),
                 req_method = ''PUT'', req_headers = json_headers,
                 req_data = attrs st ''data''\<rparr>]\<rparr>)"
proof -
  from assms have "truthy (attrs st ''data'')"
    by (cases "attrs st ''data''") simp_all
  with assms show ?thesis
    by (simp add: Document_save_def sendRequest_def Let_def)
qed



lemma document_2_eq:
  "uri document_2 = ''http://x/d/1''
   \<and> attrs document_2 ''data'' = Obj [(''_id'', Str ''1''), (''_rev'', Str ''1-a'')]
   \<and> map req_source (requests document_2) = [''http://x/d/1'', ''http://x/d/1'']"
  by (simp add: document_2_def document_1_def Document_new_of_three Document_open_success_eq
      Document_open_def sendRequest_def encodeURIComponent_def encode_char_def uriUnreserved_def)

subsection \<open>Stored responses\<close>

text \<open>
  Claim C1, on the Document: two successful \<open>fetchInfo\<close> responses in a row on
  \<open>document_1\<close>. The first is stored in \<open>info\<close>; the second is not, \<open>info\<close> still holds
  the first, because \<open>_defInfoFn\<close> calls \<open>set\<close> on a \<open>readOnly\<close> attribute that has a
  value by then. The same two responses given to \<open>open\<close> are both stored in \<open>data\<close>, the
  second replacing the first: \<open>_defOpenedFn\<close> calls \<open>_set\<close>.
\<close>

theorem Document_info_kept_on_second_fetch:
  "attrs (Document_fetchInfo_success (Obj [(''_id'', Str ''1''), (''_rev'', Str ''2-b'')])
           (Document_fetchInfo_success (Obj [(''_id'', Str ''1''), (''_rev'', Str ''1-a'')]) document_1))
         ''info'' = Obj [(''_id'', Str ''1''), (''_rev'', Str ''1-a'')]
   \<and> attrs (Document_open_success (Obj [(''_id'', Str ''1''), (''_rev'', Str ''2-b'')])
           (Document_open_success (Obj [(''_id'', Str ''1''), (''_rev'', Str ''1-a'')]) document_1))
         ''data'' = Obj [(''_id'', Str ''1''), (''_rev'', Str ''2-b'')]"
  by (simp add: document_1_def Document_new_of_three Document_fetchInfo_success_eq
      Document_set_info Document_open_success_eq)

subsection \<open>Views of a Document\<close>

text \<open>
  Claim C3, on a Document whose \<open>info\<close> is unset (\<open>document_1\<close>, before any response):
  \<open>getAllViews\<close> returns the empty sequence, and the one event it fires has the type
  \<open>'EVENT_ERROR'\<close>. No event of type \<open>'couch:error'\<close> is fired, and the default function
  of the error notification does not run: nothing is logged.
\<close>

theorem Document_getAllViews_fires_other_event:
  "Document_getAllViews document_1 =
     (Inr [], document_1\<lparr>fired := [(''EVENT_ERROR'',
        Obj [(''message'', Str ''There is no information for this document available.'')])]\<rparr>)
   \<and> errlog (snd (Document_getAllViews document_1)) = []
   \<and> ''couch:error'' \<notin> fst ` set (fired (snd (Document_getAllViews document_1)))"
  by (simp add: document_1_def Document_new_of_three Document_getAllViews_def Document_fire_def
      fire_def EVENT_ERROR_def EVENT_INFO_def EVENT_OPENED_def EVENT_SAVED_def EVENT_DELETED_def
      Let_def)

text \<open>The event fired there, read off the result.\<close>

theorem Document_getAllViews_fires_other_event_witness:
  "fired (snd (Document_getAllViews document_1)) =
     [(''EVENT_ERROR'', Obj [(''message'', Str ''There is no information for this document available.'')])]"
  using Document_getAllViews_fires_other_event by simp

subsection \<open>Saving without an id\<close>

text \<open>
  Claim C6: when the \<open>data\<close> attribute of a Document is absent, or has no \<open>_id\<close>,
  \<open>save(options)\<close> returns \<open>null\<close>; it fires \<open>couch:error\<close> once, whose default function
  logs the message; it sends no request and changes nothing else of the Document.
\<close>

theorem Document_save_without_id:
  assumes "attrs st ''data'' = Undefined \<or> js_get (attrs st ''data'') ''_id'' = Undefined"
  shows "Document_save options st =
           (Inr ReturnedNull,
            st\<lparr>fired := fired st @
                   [(''couch:error'', Obj [(''message'', Str ''No data found on the document to save.'')])],
               errlog := errlog st @ [''No data found on the document to save.'']\<rparr>)"
  using assms by (auto simp add: Document_save_def Document_fire_error EVENT_ERROR_def Let_def)

text \<open>The same on \<open>document_1\<close> after \<open>open\<close> was answered with \<open>{}\<close>.\<close>

theorem Document_save_without_id_witness:
  "js_get (attrs (Document_open_success (Obj []) document_1) ''data'') ''_id'' = Undefined
   \<and> fst (Document_save Undefined (Document_open_success (Obj []) document_1)) = Inr ReturnedNull
   \<and> requests (snd (Document_save Undefined (Document_open_success (Obj []) document_1)))
       = requests (Document_open_success (Obj []) document_1)"
  using Document_save_without_id [of "Document_open_success (Obj []) document_1" Undefined]
  by (simp add: Document_open_success_eq)

subsection \<open>The resource path of a DB\<close>

text \<open>
  Claim C9: for all strings \<open>baseURI\<close> and \<open>name\<close>, after both are assigned to a DB, in
  either order, the resource path \<open>_uri\<close> is \<open>baseURI + '/' + name + '/'\<close>.
\<close>

theorem DB_resource_path_either_order:
  "uri (DB_set ''name'' (Str name) (DB_set ''baseURI'' (Str baseURI) st))
     = baseURI @ ''/'' @ name @ ''/''
   \<and> uri (DB_set ''baseURI'' (Str baseURI) (DB_set ''name'' (Str name) st))
     = baseURI @ ''/'' @ name @ ''/''"
  by (simp add: DB_set_baseURI DB_set_name)


subsection \<open>Validation of the View parameters\<close>

text \<open>
  Claim C5, on \<open>limit\<close>: \<open>set('limit', 'abc')\<close> on \<open>view_1\<close> is accepted and \<open>limit\<close>
  reads \<open>'abc'\<close> afterwards, since \<open>limit\<close> has no validator. The same value assigned to
  \<open>skip\<close>, whose validator is \<open>IS_NUMBER\<close>, is refused and the View is left as it was.
\<close>

theorem View_limit_accepts_a_string:
  "attrs (View_set ''limit'' (Str ''abc'') view_1) ''limit'' = Str ''abc''
   \<and> View_set ''skip'' (Str ''abc'') view_1 = view_1"
  by (simp add: View_set_limit View_set_skip)

subsection \<open>Replication\<close>

text \<open>
  Claim C8, on \<open>replicate(5, 'http://b/db')\<close>: the source is not a string, yet nothing is
  logged, because the guard asks for both arguments to be non-strings, and the POST is
  sent. With neither argument a string, \<open>replicate(5, null)\<close>, the message is logged and
  the POST is sent all the same: the guard has no \<open>return\<close>. No event is fired in either
  call.
\<close>

theorem Connect_replicate_one_string:
  "Connect_replicate (Num 5) (Str ''http://b/db'') Undefined connect_1 =
     connect_1\<lparr>requests :=
       [\<lparr>req_source = ''http://x/_replicate'', req_method = ''POST'', req_headers = json_headers,
         req_data = Obj [(''source'', Num 5), (''target'', Str ''http://b/db'')]\<rparr>]\<rparr>
   \<and> Connect_replicate (Num 5) Null Undefined connect_1 =
     connect_1\<lparr>errlog := [''Cannot replicate 5 to null.''],
        requests :=
       [\<lparr>req_source = ''http://x/_replicate'', req_method = ''POST'', req_headers = json_headers,
         req_data = Obj [(''source'', Num 5), (''target'', Null)]\<rparr>]\<rparr>"
  by (simp add: Connect_replicate_def connect_1_def sendRequest_def Let_def int_to_string_def
      nat_to_string.simps digit_char_def)

subsection \<open>Databases of a Connect\<close>

text \<open>
  Claim C7 as stated fails: \<open>getDatabase('d')\<close> on \<open>connect_1\<close> does send a request, the
  \<open>fetchInfo\<close> of the initializer of the new DB.
\<close>

theorem Connect_getDatabase_sends_request:
  "requests (Connect_getDatabase (Str ''d'') connect_1) \<noteq> []"
  by (simp add: Connect_getDatabase_def connect_1_def DB_new_of_two)

text \<open>
  Claim C7, amended: for every Connect whose \<open>baseURI\<close> is a string and every string
  \<open>name\<close>, \<open>getDatabase(name)\<close> returns a new DB whose \<open>baseURI\<close> is that of the
  Connect and whose \<open>name\<close> is the given one, and making it sends exactly one request,
  the GET of the DB's \<open>fetchInfo\<close> to \<open>baseURI + '/' + name + '/'\<close>.
\<close>

theorem Connect_getDatabase_fetches_info:
  assumes "attrs st ''baseURI'' = Str baseURI"
  shows "attrs (Connect_getDatabase (Str name) st) ''baseURI'' = attrs st ''baseURI''
       \<and> attrs (Connect_getDatabase (Str name) st) ''name'' = Str name
       \<and> requests (Connect_getDatabase (Str name) st) =
           [\<lparr>req_source = baseURI @ ''/'' @ name @ ''/'', req_method = ''GET'',
             req_headers = json_headers, req_data = Undefined\<rparr>]"
  using assms by (simp add: Connect_getDatabase_def DB_new_of_two)

theorem Connect_getDatabase_fetches_info_witness:
  "attrs connect_1 ''baseURI'' = Str ''http://x''
   \<and> attrs (Connect_getDatabase (Str ''d'') connect_1) ''baseURI'' = Str ''http://x''
   \<and> attrs (Connect_getDatabase (Str ''d'') connect_1) ''name'' = Str ''d''
   \<and> map req_source (requests (Connect_getDatabase (Str ''d'') connect_1)) = [''http://x/d/'']"
  using Connect_getDatabase_fetches_info [of connect_1 "''http://x''" "''d''"]
  by (simp add: connect_1_def)


subsection \<open>The query of a View\<close>



subsection \<open>Saving a Document\<close>




subsection \<open>The id of a Document\<close>

text \<open>
  Claim C10 as stated fails: \<open>a/b\<close> is changed by \<open>encodeURIComponent\<close>, yet assigning it
  to \<open>id\<close> twice leaves the Document as one assignment does; the stored id is
  \<open>a%2Fb\<close>, encoded once, and the resource path is unchanged by the second assignment.
\<close>

theorem Document_id_assigned_twice:
  "encodeURIComponent ''a/b'' \<noteq> ''a/b''
   \<and> Document_set ''id'' (Str ''a/b'') (Document_set ''id'' (Str ''a/b'') document_1)
       = Document_set ''id'' (Str ''a/b'') document_1
   \<and> attrs (Document_set ''id'' (Str ''a/b'') (Document_set ''id'' (Str ''a/b'') document_1)) ''id''
       = Str ''a%2Fb''
   \<and> uri (Document_set ''id'' (Str ''a/b'') (Document_set ''id'' (Str ''a/b'') document_1))
       = ''http://x/d/a%2Fb''"
  by (simp add: Document_set_id document_1_def Document_new_of_three encodeURIComponent_def
      encode_char_def uriUnreserved_def percent_def digit_char_def)

text \<open>
  Claim C10, amended: the id setter stores \<open>encodeURIComponent\<close> of the assigned string,
  so reading \<open>id\<close> back gives the encoded form. Assigning the same string twice is
  idempotent: the setter encodes its argument, not the stored value. Assigning the value
  read back is not: whenever \<open>encodeURIComponent\<close> changes the string, the id becomes the
  twice-encoded string, which differs from the stored one, and the resource path changes.
  \<open>save\<close> appends \<open>encodeURIComponent(data._id)\<close> to the resource path for its PUT.
\<close>

theorem Document_id_stored_encoded:
  "attrs (Document_set ''id'' (Str v) st) ''id'' = Str (encodeURIComponent v)
   \<and> Document_set ''id'' (Str v) (Document_set ''id'' (Str v) st) = Document_set ''id'' (Str v) st
   \<and> (encodeURIComponent v \<noteq> v \<longrightarrow>
        attrs (Document_set ''id'' (attrs (Document_set ''id'' (Str v) st) ''id'')
                 (Document_set ''id'' (Str v) st)) ''id''
          = Str (encodeURIComponent (encodeURIComponent v))
        \<and> encodeURIComponent (encodeURIComponent v) \<noteq> encodeURIComponent v
        \<and> uri (Document_set ''id'' (attrs (Document_set ''id'' (Str v) st) ''id'')
                 (Document_set ''id'' (Str v) st))
          \<noteq> uri (Document_set ''id'' (Str v) st))
   \<and> (truthy (js_get (attrs st ''data'') ''_id'') \<longrightarrow>
        fst (Document_save Undefined st) =
          Inr (ReturnedDataSource
                (uri st @ encodeURIComponent (js_to_string (js_get (attrs st ''data'') ''_id'')))))"
  using encodeURIComponent_twice [of v]
  by (simp add: Document_set_id Document_save_sends)

theorem Document_id_stored_encoded_witness:
  "encodeURIComponent ''a/b'' \<noteq> ''a/b''
   \<and> truthy (js_get (attrs document_2 ''data'') ''_id'')
   \<and> attrs (Document_set ''id'' (Str ''a/b'') document_2) ''id'' = Str ''a%2Fb''
   \<and> attrs (Document_set ''id'' (attrs (Document_set ''id'' (Str ''a/b'') document_2) ''id'')
                 (Document_set ''id'' (Str ''a/b'') document_2)) ''id'' = Str ''a%252Fb''
   \<and> uri (Document_set ''id'' (Str ''a/b'') document_2) = ''http://x/d/a%2Fb''
   \<and> uri (Document_set ''id'' (attrs (Document_set ''id'' (Str ''a/b'') document_2) ''id'')
                 (Document_set ''id'' (Str ''a/b'') document_2)) = ''http://x/d/a%252Fb''
   \<and> fst (Document_save Undefined document_2) = Inr (ReturnedDataSource ''http://x/d/11'')"
  using Document_id_stored_encoded [of "''a/b''" document_2]
  by (simp add: Document_set_id document_2_eq document_2_def document_1_def Document_new_of_three
      Document_open_success_eq Document_open_def sendRequest_def encodeURIComponent_def
      encode_char_def uriUnreserved_def percent_def digit_char_def)

end
